theory Spec2Isabelle
  imports Main "HOL-Library.Word"
begin

section \<open>Views, index types and element arithmetic\<close>

text \<open>
  The kernels of \<^verbatim>\<open>Kokkos_Blas1_MV_impl_axpby.hpp\<close> are templates over the element
  type of the views. The element type is modelled by a type variable that only carries
  the operations the code uses (\<open>ATS::zero ()\<close>, \<open>ATS::one ()\<close>, unary and binary
  minus, plus, times) and no algebraic law: whatever is proved holds for every
  interpretation of these operations.

  \<open>size_type\<close> is the unsigned 64-bit size type of a host view; its arithmetic wraps.
  The template parameter \<open>SizeType\<close> of the functors and dispatch functions is either
  \<open>int\<close> (\<open>Int_index\<close>) or the view's \<open>size_type\<close> (\<open>Size_index\<close>); \<open>to_index\<close> is
  the conversion \<open>const SizeType n = x.dimension_k ()\<close>.
\<close>

type_synonym size_type = "64 word"

datatype index_type = Int_index | Size_index

definition INT_MAX :: size_type where
  "INT_MAX = 2147483647"

definition to_index :: "index_type \<Rightarrow> size_type \<Rightarrow> int" where
  "to_index ity n =
     (case ity of
        Int_index \<Rightarrow> sint (ucast n :: 32 word)
      | Size_index \<Rightarrow> uint n)"

datatype array_layout = LayoutLeft | LayoutRight

text \<open>
  A view is its extents together with the memory reachable through it. Reads are not
  bounds-checked (as in Kokkos): \<open>V_data v k\<close> for \<open>k\<close> beyond the extent is whatever the
  memory holds there. The views R, X and Y of a call are separate values: the model
  covers calls in which R does not alias X or Y.
\<close>

record 'a V =
  V_dimension_0 :: size_type
  V_data :: "nat \<Rightarrow> 'a"

record 'a MV =
  dimension_0 :: size_type
  dimension_1 :: size_type
  layout :: array_layout
  data :: "nat \<Rightarrow> nat \<Rightarrow> 'a"

text \<open>
  The template parameters \<open>AV\<close> and \<open>BV\<close> are either both the scalar type or both 1-D
  views; each functor has a primary template for views (reading \<open>m_a(k)\<close>, or \<open>m_a(0)\<close>
  in the rank-1 functor) and a partial specialization for scalars (reading \<open>m_a\<close>) whose
  bodies are otherwise the same. \<open>coef\<close> is that read.
\<close>

datatype 'a coeff = Scalar 'a | Coeffs "'a V"

fun coef :: "'a coeff \<Rightarrow> nat \<Rightarrow> 'a" where
  "coef (Scalar c) k = c"
| "coef (Coeffs v) k = V_data v k"

text \<open>\<open>for (SizeType k = 0; k < n; ++k) body\<close>, and the launch of a functor over
  the range policy \<open>(0, numRows)\<close>, run here in increasing order.\<close>

definition for_loop :: "int \<Rightarrow> (nat \<Rightarrow> 's \<Rightarrow> 's) \<Rightarrow> 's \<Rightarrow> 's" where
  "for_loop n body s = fold body [0..<nat n] s"

definition parallel_for :: "int \<Rightarrow> (nat \<Rightarrow> 's \<Rightarrow> 's) \<Rightarrow> 's \<Rightarrow> 's" where
  "parallel_for numRows op s = for_loop numRows op s"

section \<open>The functors\<close>

text \<open>\<open>MV_Axpby_Functor::operator()\<close> (lines 122-304 and 370-553): sixteen
  consecutive \<open>if\<close> statements on the compile-time tags, each with a loop over the
  columns. \<open>numCols\<close> is set by the constructor from \<open>X.dimension_1 ()\<close>.\<close>

definition MV_Axpby_Functor ::
  "index_type \<Rightarrow> int \<Rightarrow> int \<Rightarrow> 'a MV \<Rightarrow> 'a MV \<Rightarrow> 'a coeff \<Rightarrow> 'a coeff \<Rightarrow> nat \<Rightarrow>
   (nat \<Rightarrow> nat \<Rightarrow> 'a::{zero,uminus,plus,minus,times}) \<Rightarrow> (nat \<Rightarrow> nat \<Rightarrow> 'a)" where
  "MV_Axpby_Functor ity scalar_x scalar_y m_x m_y m_a m_b i m_r =
    (let numCols = to_index ity (dimension_1 m_x);
         m_r = (if scalar_x = 0 \<and> scalar_y = 0
                then for_loop numCols (\<lambda>k r. r(i := (r i)(k := 0))) m_r else m_r);
         m_r = (if scalar_x = 0 \<and> scalar_y = -1
                then for_loop numCols (\<lambda>k r. r(i := (r i)(k := - data m_y i k))) m_r else m_r);
         m_r = (if scalar_x = 0 \<and> scalar_y = 1
                then for_loop numCols (\<lambda>k r. r(i := (r i)(k := data m_y i k))) m_r else m_r);
         m_r = (if scalar_x = 0 \<and> scalar_y = 2
                then for_loop numCols (\<lambda>k r. r(i := (r i)(k := coef m_b k * data m_y i k))) m_r
                else m_r);
         m_r = (if scalar_x = -1 \<and> scalar_y = 0
                then for_loop numCols (\<lambda>k r. r(i := (r i)(k := - data m_x i k))) m_r else m_r);
         m_r = (if scalar_x = -1 \<and> scalar_y = -1
                then for_loop numCols
                       (\<lambda>k r. r(i := (r i)(k := - data m_x i k - data m_y i k))) m_r
                else m_r);
         m_r = (if scalar_x = -1 \<and> scalar_y = 1
                then for_loop numCols
                       (\<lambda>k r. r(i := (r i)(k := - data m_x i k + data m_y i k))) m_r
                else m_r);
         m_r = (if scalar_x = -1 \<and> scalar_y = 2
                then for_loop numCols
                       (\<lambda>k r. r(i := (r i)(k := - data m_x i k + coef m_b k * data m_y i k))) m_r
                else m_r);
         m_r = (if scalar_x = 1 \<and> scalar_y = 0
                then for_loop numCols (\<lambda>k r. r(i := (r i)(k := data m_x i k))) m_r else m_r);
         m_r = (if scalar_x = 1 \<and> scalar_y = -1
                then for_loop numCols
                       (\<lambda>k r. r(i := (r i)(k := data m_x i k - data m_y i k))) m_r
                else m_r);
         m_r = (if scalar_x = 1 \<and> scalar_y = 1
                then for_loop numCols
                       (\<lambda>k r. r(i := (r i)(k := data m_x i k + data m_y i k))) m_r
                else m_r);
         m_r = (if scalar_x = 1 \<and> scalar_y = 2
                then for_loop numCols
                       (\<lambda>k r. r(i := (r i)(k := data m_x i k + coef m_b k * data m_y i k))) m_r
                else m_r);
         m_r = (if scalar_x = 2 \<and> scalar_y = 0
                then for_loop numCols (\<lambda>k r. r(i := (r i)(k := coef m_a k * data m_x i k))) m_r
                else m_r);
         m_r = (if scalar_x = 2 \<and> scalar_y = -1
                then for_loop numCols
                       (\<lambda>k r. r(i := (r i)(k := coef m_a k * data m_x i k - data m_y i k))) m_r
                else m_r);
         m_r = (if scalar_x = 2 \<and> scalar_y = 1
                then for_loop numCols
                       (\<lambda>k r. r(i := (r i)(k := coef m_a k * data m_x i k + data m_y i k))) m_r
                else m_r);
         m_r = (if scalar_x = 2 \<and> scalar_y = 2
                then for_loop numCols
                       (\<lambda>k r. r(i := (r i)
                          (k := coef m_a k * data m_x i k + coef m_b k * data m_y i k))) m_r
                else m_r)
     in m_r)"

text \<open>\<open>MV_Axpby_Unroll_Functor::operator()\<close> (lines 607-742 and 792-926): the same
  sixteen statements, the column loop \<open>for (int k = 0; k < UNROLL; ++k)\<close> bounded by the
  template parameter.\<close>

definition MV_Axpby_Unroll_Functor ::
  "int \<Rightarrow> int \<Rightarrow> int \<Rightarrow> 'a MV \<Rightarrow> 'a MV \<Rightarrow> 'a coeff \<Rightarrow> 'a coeff \<Rightarrow> nat \<Rightarrow>
   (nat \<Rightarrow> nat \<Rightarrow> 'a::{zero,uminus,plus,minus,times}) \<Rightarrow> (nat \<Rightarrow> nat \<Rightarrow> 'a)" where
  "MV_Axpby_Unroll_Functor UNROLL scalar_x scalar_y m_x m_y m_a m_b i m_r =
    (let m_r = (if scalar_x = 0 \<and> scalar_y = 0
                then for_loop UNROLL (\<lambda>k r. r(i := (r i)(k := 0))) m_r else m_r);
         m_r = (if scalar_x = 0 \<and> scalar_y = -1
                then for_loop UNROLL (\<lambda>k r. r(i := (r i)(k := - data m_y i k))) m_r else m_r);
         m_r = (if scalar_x = 0 \<and> scalar_y = 1
                then for_loop UNROLL (\<lambda>k r. r(i := (r i)(k := data m_y i k))) m_r else m_r);
         m_r = (if scalar_x = 0 \<and> scalar_y = 2
                then for_loop UNROLL (\<lambda>k r. r(i := (r i)(k := coef m_b k * data m_y i k))) m_r
                else m_r);
         m_r = (if scalar_x = -1 \<and> scalar_y = 0
                then for_loop UNROLL (\<lambda>k r. r(i := (r i)(k := - data m_x i k))) m_r else m_r);
         m_r = (if scalar_x = -1 \<and> scalar_y = -1
                then for_loop UNROLL
                       (\<lambda>k r. r(i := (r i)(k := - data m_x i k - data m_y i k))) m_r
                else m_r);
         m_r = (if scalar_x = -1 \<and> scalar_y = 1
                then for_loop UNROLL
                       (\<lambda>k r. r(i := (r i)(k := - data m_x i k + data m_y i k))) m_r
                else m_r);
         m_r = (if scalar_x = -1 \<and> scalar_y = 2
                then for_loop UNROLL
                       (\<lambda>k r. r(i := (r i)(k := - data m_x i k + coef m_b k * data m_y i k))) m_r
                else m_r);
         m_r = (if scalar_x = 1 \<and> scalar_y = 0
                then for_loop UNROLL (\<lambda>k r. r(i := (r i)(k := data m_x i k))) m_r else m_r);
         m_r = (if scalar_x = 1 \<and> scalar_y = -1
                then for_loop UNROLL
                       (\<lambda>k r. r(i := (r i)(k := data m_x i k - data m_y i k))) m_r
                else m_r);
         m_r = (if scalar_x = 1 \<and> scalar_y = 1
                then for_loop UNROLL
                       (\<lambda>k r. r(i := (r i)(k := data m_x i k + data m_y i k))) m_r
                else m_r);
         m_r = (if scalar_x = 1 \<and> scalar_y = 2
                then for_loop UNROLL
                       (\<lambda>k r. r(i := (r i)(k := data m_x i k + coef m_b k * data m_y i k))) m_r
                else m_r);
         m_r = (if scalar_x = 2 \<and> scalar_y = 0
                then for_loop UNROLL (\<lambda>k r. r(i := (r i)(k := coef m_a k * data m_x i k))) m_r
                else m_r);
         m_r = (if scalar_x = 2 \<and> scalar_y = -1
                then for_loop UNROLL
                       (\<lambda>k r. r(i := (r i)(k := coef m_a k * data m_x i k - data m_y i k))) m_r
                else m_r);
         m_r = (if scalar_x = 2 \<and> scalar_y = 1
                then for_loop UNROLL
                       (\<lambda>k r. r(i := (r i)(k := coef m_a k * data m_x i k + data m_y i k))) m_r
                else m_r);
         m_r = (if scalar_x = 2 \<and> scalar_y = 2
                then for_loop UNROLL
                       (\<lambda>k r. r(i := (r i)
                          (k := coef m_a k * data m_x i k + coef m_b k * data m_y i k))) m_r
                else m_r)
     in m_r)"

text \<open>\<open>V_Axpby_Functor::operator()\<close> (lines 985-1040 and 1102-1157): one
  assignment per statement; a coefficient view is read at index 0.\<close>

definition V_Axpby_Functor ::
  "int \<Rightarrow> int \<Rightarrow> 'a V \<Rightarrow> 'a V \<Rightarrow> 'a coeff \<Rightarrow> 'a coeff \<Rightarrow> nat \<Rightarrow>
   (nat \<Rightarrow> 'a::{zero,uminus,plus,minus,times}) \<Rightarrow> (nat \<Rightarrow> 'a)" where
  "V_Axpby_Functor scalar_x scalar_y m_x m_y m_a m_b i m_r =
    (let m_r = (if scalar_x = 0 \<and> scalar_y = 0 then m_r(i := 0) else m_r);
         m_r = (if scalar_x = 0 \<and> scalar_y = -1 then m_r(i := - V_data m_y i) else m_r);
         m_r = (if scalar_x = 0 \<and> scalar_y = 1 then m_r(i := V_data m_y i) else m_r);
         m_r = (if scalar_x = 0 \<and> scalar_y = 2
                then m_r(i := coef m_b 0 * V_data m_y i) else m_r);
         m_r = (if scalar_x = -1 \<and> scalar_y = 0 then m_r(i := - V_data m_x i) else m_r);
         m_r = (if scalar_x = -1 \<and> scalar_y = -1
                then m_r(i := - V_data m_x i - V_data m_y i) else m_r);
         m_r = (if scalar_x = -1 \<and> scalar_y = 1
                then m_r(i := - V_data m_x i + V_data m_y i) else m_r);
         m_r = (if scalar_x = -1 \<and> scalar_y = 2
                then m_r(i := - V_data m_x i + coef m_b 0 * V_data m_y i) else m_r);
         m_r = (if scalar_x = 1 \<and> scalar_y = 0 then m_r(i := V_data m_x i) else m_r);
         m_r = (if scalar_x = 1 \<and> scalar_y = -1
                then m_r(i := V_data m_x i - V_data m_y i) else m_r);
         m_r = (if scalar_x = 1 \<and> scalar_y = 1
                then m_r(i := V_data m_x i + V_data m_y i) else m_r);
         m_r = (if scalar_x = 1 \<and> scalar_y = 2
                then m_r(i := V_data m_x i + coef m_b 0 * V_data m_y i) else m_r);
         m_r = (if scalar_x = 2 \<and> scalar_y = 0
                then m_r(i := coef m_a 0 * V_data m_x i) else m_r);
         m_r = (if scalar_x = 2 \<and> scalar_y = -1
                then m_r(i := coef m_a 0 * V_data m_x i - V_data m_y i) else m_r);
         m_r = (if scalar_x = 2 \<and> scalar_y = 1
                then m_r(i := coef m_a 0 * V_data m_x i + V_data m_y i) else m_r);
         m_r = (if scalar_x = 2 \<and> scalar_y = 2
                then m_r(i := coef m_a 0 * V_data m_x i + coef m_b 0 * V_data m_y i) else m_r)
     in m_r)"

section \<open>The dispatch layer\<close>

text \<open>
  Every dispatch function ends in the two statements
  \<^verbatim>\<open>Functor<..., scalar_x, scalar_y, ..., SizeType> op (r, x, y, av, bv);
  Kokkos::parallel_for (policy, op);\<close>
  with \<open>policy (0, numRows)\<close> and \<open>const SizeType numRows = x.dimension_0 ()\<close>. A
  \<open>kernel\<close> names the functor instantiation that is launched; a dispatch function returns
  the kernels it launched, in order, and the contents of R afterwards.
\<close>

datatype kernel =
    V_Axpby_Kernel int int index_type
  | MV_Axpby_Kernel int int index_type
  | MV_Axpby_Unroll_Kernel int int int index_type

fun kernel_index_type :: "kernel \<Rightarrow> index_type" where
  "kernel_index_type (V_Axpby_Kernel sx sy ity) = ity"
| "kernel_index_type (MV_Axpby_Kernel sx sy ity) = ity"
| "kernel_index_type (MV_Axpby_Unroll_Kernel sx sy U ity) = ity"

definition launch_MV_Axpby_Unroll_Functor ::
  "int \<Rightarrow> index_type \<Rightarrow> int \<Rightarrow> int \<Rightarrow> 'a MV \<Rightarrow> 'a coeff \<Rightarrow> 'a MV \<Rightarrow> 'a coeff \<Rightarrow> 'a MV \<Rightarrow>
   kernel list \<times> (nat \<Rightarrow> nat \<Rightarrow> 'a::{zero,uminus,plus,minus,times})" where
  "launch_MV_Axpby_Unroll_Functor UNROLL ity scalar_x scalar_y r av x bv y =
     (let numRows = to_index ity (dimension_0 x)
      in ([MV_Axpby_Unroll_Kernel scalar_x scalar_y UNROLL ity],
          parallel_for numRows (MV_Axpby_Unroll_Functor UNROLL scalar_x scalar_y x y av bv)
            (data r)))"

definition launch_MV_Axpby_Functor ::
  "index_type \<Rightarrow> int \<Rightarrow> int \<Rightarrow> 'a MV \<Rightarrow> 'a coeff \<Rightarrow> 'a MV \<Rightarrow> 'a coeff \<Rightarrow> 'a MV \<Rightarrow>
   kernel list \<times> (nat \<Rightarrow> nat \<Rightarrow> 'a::{zero,uminus,plus,minus,times})" where
  "launch_MV_Axpby_Functor ity scalar_x scalar_y r av x bv y =
     (let numRows = to_index ity (dimension_0 x)
      in ([MV_Axpby_Kernel scalar_x scalar_y ity],
          parallel_for numRows (MV_Axpby_Functor ity scalar_x scalar_y x y av bv) (data r)))"

definition launch_V_Axpby_Functor ::
  "index_type \<Rightarrow> int \<Rightarrow> int \<Rightarrow> 'a V \<Rightarrow> 'a coeff \<Rightarrow> 'a V \<Rightarrow> 'a coeff \<Rightarrow> 'a V \<Rightarrow>
   kernel list \<times> (nat \<Rightarrow> 'a::{zero,uminus,plus,minus,times})" where
  "launch_V_Axpby_Functor ity scalar_x scalar_y r av x bv y =
     (let numRows = to_index ity (V_dimension_0 x)
      in ([V_Axpby_Kernel scalar_x scalar_y ity],
          parallel_for numRows (V_Axpby_Functor scalar_x scalar_y x y av bv) (V_data r)))"

text \<open>\<open>MV_Axpby_Unrolled\<close> (lines 1181-1276): twelve \<open>if (a == .. && b == ..) { ..;
  return; }\<close> statements for \<open>a\<close> in 0, -1, 1 and \<open>b\<close> in 0, -1, 1, 2, then the
  functor with tags (2, 2).\<close>

definition MV_Axpby_Unrolled ::
  "int \<Rightarrow> index_type \<Rightarrow> 'a MV \<Rightarrow> 'a coeff \<Rightarrow> 'a MV \<Rightarrow> 'a coeff \<Rightarrow> 'a MV \<Rightarrow> int \<Rightarrow> int \<Rightarrow>
   kernel list \<times> (nat \<Rightarrow> nat \<Rightarrow> 'a::{zero,uminus,plus,minus,times})" where
  "MV_Axpby_Unrolled UNROLL ity r av x bv y a b =
    (if a = 0 \<and> b = 0 then launch_MV_Axpby_Unroll_Functor UNROLL ity 0 0 r av x bv y
     else if a = 0 \<and> b = - 1 then launch_MV_Axpby_Unroll_Functor UNROLL ity 0 (- 1) r av x bv y
     else if a = 0 \<and> b = 1 then launch_MV_Axpby_Unroll_Functor UNROLL ity 0 1 r av x bv y
     else if a = 0 \<and> b = 2 then launch_MV_Axpby_Unroll_Functor UNROLL ity 0 2 r av x bv y
     else if a = - 1 \<and> b = 0 then launch_MV_Axpby_Unroll_Functor UNROLL ity (- 1) 0 r av x bv y
     else if a = - 1 \<and> b = - 1 then launch_MV_Axpby_Unroll_Functor UNROLL ity (- 1) (- 1) r av x bv y
     else if a = - 1 \<and> b = 1 then launch_MV_Axpby_Unroll_Functor UNROLL ity (- 1) 1 r av x bv y
     else if a = - 1 \<and> b = 2 then launch_MV_Axpby_Unroll_Functor UNROLL ity (- 1) 2 r av x bv y
     else if a = 1 \<and> b = 0 then launch_MV_Axpby_Unroll_Functor UNROLL ity 1 0 r av x bv y
     else if a = 1 \<and> b = - 1 then launch_MV_Axpby_Unroll_Functor UNROLL ity 1 (- 1) r av x bv y
     else if a = 1 \<and> b = 1 then launch_MV_Axpby_Unroll_Functor UNROLL ity 1 1 r av x bv y
     else if a = 1 \<and> b = 2 then launch_MV_Axpby_Unroll_Functor UNROLL ity 1 2 r av x bv y
     else launch_MV_Axpby_Unroll_Functor UNROLL ity 2 2 r av x bv y)"

text \<open>\<open>MV_Axpby_Generic\<close> (lines 1301-1396).\<close>

definition MV_Axpby_Generic ::
  "index_type \<Rightarrow> 'a MV \<Rightarrow> 'a coeff \<Rightarrow> 'a MV \<Rightarrow> 'a coeff \<Rightarrow> 'a MV \<Rightarrow> int \<Rightarrow> int \<Rightarrow>
   kernel list \<times> (nat \<Rightarrow> nat \<Rightarrow> 'a::{zero,uminus,plus,minus,times})" where
  "MV_Axpby_Generic ity r av x bv y a b =
    (if a = 0 \<and> b = 0 then launch_MV_Axpby_Functor ity 0 0 r av x bv y
     else if a = 0 \<and> b = - 1 then launch_MV_Axpby_Functor ity 0 (- 1) r av x bv y
     else if a = 0 \<and> b = 1 then launch_MV_Axpby_Functor ity 0 1 r av x bv y
     else if a = 0 \<and> b = 2 then launch_MV_Axpby_Functor ity 0 2 r av x bv y
     else if a = - 1 \<and> b = 0 then launch_MV_Axpby_Functor ity (- 1) 0 r av x bv y
     else if a = - 1 \<and> b = - 1 then launch_MV_Axpby_Functor ity (- 1) (- 1) r av x bv y
     else if a = - 1 \<and> b = 1 then launch_MV_Axpby_Functor ity (- 1) 1 r av x bv y
     else if a = - 1 \<and> b = 2 then launch_MV_Axpby_Functor ity (- 1) 2 r av x bv y
     else if a = 1 \<and> b = 0 then launch_MV_Axpby_Functor ity 1 0 r av x bv y
     else if a = 1 \<and> b = - 1 then launch_MV_Axpby_Functor ity 1 (- 1) r av x bv y
     else if a = 1 \<and> b = 1 then launch_MV_Axpby_Functor ity 1 1 r av x bv y
     else if a = 1 \<and> b = 2 then launch_MV_Axpby_Functor ity 1 2 r av x bv y
     else launch_MV_Axpby_Functor ity 2 2 r av x bv y)"

text \<open>\<open>V_Axpby_Generic\<close> (lines 1404-1500).\<close>

definition V_Axpby_Generic ::
  "index_type \<Rightarrow> 'a V \<Rightarrow> 'a coeff \<Rightarrow> 'a V \<Rightarrow> 'a coeff \<Rightarrow> 'a V \<Rightarrow> int \<Rightarrow> int \<Rightarrow>
   kernel list \<times> (nat \<Rightarrow> 'a::{zero,uminus,plus,minus,times})" where
  "V_Axpby_Generic ity r av x bv y a b =
    (if a = 0 \<and> b = 0 then launch_V_Axpby_Functor ity 0 0 r av x bv y
     else if a = 0 \<and> b = - 1 then launch_V_Axpby_Functor ity 0 (- 1) r av x bv y
     else if a = 0 \<and> b = 1 then launch_V_Axpby_Functor ity 0 1 r av x bv y
     else if a = 0 \<and> b = 2 then launch_V_Axpby_Functor ity 0 2 r av x bv y
     else if a = - 1 \<and> b = 0 then launch_V_Axpby_Functor ity (- 1) 0 r av x bv y
     else if a = - 1 \<and> b = - 1 then launch_V_Axpby_Functor ity (- 1) (- 1) r av x bv y
     else if a = - 1 \<and> b = 1 then launch_V_Axpby_Functor ity (- 1) 1 r av x bv y
     else if a = - 1 \<and> b = 2 then launch_V_Axpby_Functor ity (- 1) 2 r av x bv y
     else if a = 1 \<and> b = 0 then launch_V_Axpby_Functor ity 1 0 r av x bv y
     else if a = 1 \<and> b = - 1 then launch_V_Axpby_Functor ity 1 (- 1) r av x bv y
     else if a = 1 \<and> b = 1 then launch_V_Axpby_Functor ity 1 1 r av x bv y
     else if a = 1 \<and> b = 2 then launch_V_Axpby_Functor ity 1 2 r av x bv y
     else launch_V_Axpby_Functor ity 2 2 r av x bv y)"

section \<open>The layout-aware invoker\<close>

text \<open>\<open>Kokkos::subview (v, Kokkos::ALL (), j)\<close> is a rank-1 view of column \<open>j\<close>; it
  shares the memory of \<open>v\<close>, so what is written through the subview of R is column \<open>j\<close>
  of R afterwards (\<open>store_column\<close>).\<close>

definition subview :: "'a MV \<Rightarrow> nat \<Rightarrow> 'a V" where
  "subview v j = \<lparr>V_dimension_0 = dimension_0 v, V_data = (\<lambda>i. data v i j)\<rparr>"

definition store_column :: "'a MV \<Rightarrow> nat \<Rightarrow> (nat \<Rightarrow> 'a) \<Rightarrow> (nat \<Rightarrow> nat \<Rightarrow> 'a)" where
  "store_column r j col = (\<lambda>i k. if k = j then col i else data r i k)"

text \<open>\<open>MV_Axpby_Invoke_Left\<close> (lines 1524-1616): a \<open>switch\<close> on
  \<open>const SizeType numCols = x.dimension_1 ()\<close> with the cases 1 to 16 and a default.
  The file also has \<open>MV_Axpby_Invoke_Right\<close> (lines 1640-1685), documented as the
  variant for row-major views; no entry point calls it, and it is not part of the
  model.\<close>

definition MV_Axpby_Invoke_Left ::
  "index_type \<Rightarrow> 'a MV \<Rightarrow> 'a coeff \<Rightarrow> 'a MV \<Rightarrow> 'a coeff \<Rightarrow> 'a MV \<Rightarrow> int \<Rightarrow> int \<Rightarrow>
   kernel list \<times> (nat \<Rightarrow> nat \<Rightarrow> 'a::{zero,uminus,plus,minus,times})" where
  "MV_Axpby_Invoke_Left ity r av x bv y a b =
    (let numCols = to_index ity (dimension_1 x)
     in if numCols = 1 then
          (let r_0 = subview r 0;
               x_0 = subview x 0;
               y_0 = subview y 0;
               res = V_Axpby_Generic ity r_0 av x_0 bv y_0 a b
           in (fst res, store_column r 0 (snd res)))
        else if numCols = 2 then MV_Axpby_Unrolled 2 ity r av x bv y a b
        else if numCols = 3 then MV_Axpby_Unrolled 3 ity r av x bv y a b
        else if numCols = 4 then MV_Axpby_Unrolled 4 ity r av x bv y a b
        else if numCols = 5 then MV_Axpby_Unrolled 5 ity r av x bv y a b
        else if numCols = 6 then MV_Axpby_Unrolled 6 ity r av x bv y a b
        else if numCols = 7 then MV_Axpby_Unrolled 7 ity r av x bv y a b
        else if numCols = 8 then MV_Axpby_Unrolled 8 ity r av x bv y a b
        else if numCols = 9 then MV_Axpby_Unrolled 9 ity r av x bv y a b
        else if numCols = 10 then MV_Axpby_Unrolled 10 ity r av x bv y a b
        else if numCols = 11 then MV_Axpby_Unrolled 11 ity r av x bv y a b
        else if numCols = 12 then MV_Axpby_Unrolled 12 ity r av x bv y a b
        else if numCols = 13 then MV_Axpby_Unrolled 13 ity r av x bv y a b
        else if numCols = 14 then MV_Axpby_Unrolled 14 ity r av x bv y a b
        else if numCols = 15 then MV_Axpby_Unrolled 15 ity r av x bv y a b
        else if numCols = 16 then MV_Axpby_Unrolled 16 ity r av x bv y a b
        else MV_Axpby_Generic ity r av x bv y a b)"

section \<open>The entry points\<close>

text \<open>\<open>Axpby<RMV, AV, XMV, BV, YMV, 2>::axpby\<close> for coefficient views (lines
  1716-1760). The tags come from the extents of the coefficient views alone (lines
  1742-1748).\<close>

definition Axpby_MV_views_tag :: "'a V \<Rightarrow> int" where
  "Axpby_MV_views_tag av = (let a = 2 in if V_dimension_0 av = 0 then 0 else a)"

definition Axpby_MV_views_axpby ::
  "'a MV \<Rightarrow> 'a V \<Rightarrow> 'a MV \<Rightarrow> 'a V \<Rightarrow> 'a MV \<Rightarrow>
   kernel list \<times> (nat \<Rightarrow> nat \<Rightarrow> 'a::{zero,uminus,plus,minus,times})" where
  "Axpby_MV_views_axpby R av X bv Y =
    (let numRows = dimension_0 X;
         numCols = dimension_1 X;
         a = Axpby_MV_views_tag av;
         b = Axpby_MV_views_tag bv
     in if numRows < INT_MAX \<and> numRows * numCols < INT_MAX
        then MV_Axpby_Invoke_Left Int_index R (Coeffs av) X (Coeffs bv) Y a b
        else MV_Axpby_Invoke_Left Size_index R (Coeffs av) X (Coeffs bv) Y a b)"

text \<open>
  The scalar entry points classify \<open>alpha\<close> and \<open>beta\<close> with the comparisons
  \<open>alpha == ATA::zero ()\<close>, \<open>alpha == -ATA::one ()\<close> and \<open>alpha == ATA::one ()\<close>.
  \<open>ArithTraits\<close> and the element type are not part of the file. C++ applies the usual
  arithmetic conversions to the operands of \<open>==\<close> and of unary minus: an element type
  narrower than \<open>int\<close> is promoted to \<open>int\<close> (so \<open>-ATA::one ()\<close> is the \<open>int\<close> -1,
  which no \<open>unsigned char\<close> equals), and floating-point operands are compared by value
  (\<open>-0.0 == 0.0\<close>). The conversion is the parameter \<open>conv\<close> of the entry points: the
  identity for \<open>int\<close> and wider integer types, the value in \<open>int\<close> for narrower ones,
  the numeric value for floating-point types.
\<close>

text \<open>The rank-2 entry point for scalar coefficients (lines 1776-1839); the
  classification of \<open>alpha\<close> (lines 1803-1814) and of \<open>beta\<close> (lines 1815-1826) is the
  same chain of comparisons.\<close>

definition Axpby_MV_scalars_tag :: "('a::{zero,one} \<Rightarrow> 'p::uminus) \<Rightarrow> 'a \<Rightarrow> int" where
  "Axpby_MV_scalars_tag conv alpha =
     (if conv alpha = conv 0 then 0
      else if conv alpha = - conv 1 then - 1
      else if conv alpha = conv 1 then 1
      else 2)"

definition Axpby_MV_scalars_axpby ::
  "('a \<Rightarrow> 'p::uminus) \<Rightarrow> 'a MV \<Rightarrow> 'a \<Rightarrow> 'a MV \<Rightarrow> 'a \<Rightarrow> 'a MV \<Rightarrow>
   kernel list \<times> (nat \<Rightarrow> nat \<Rightarrow> 'a::{zero,one,uminus,plus,minus,times})" where
  "Axpby_MV_scalars_axpby conv R alpha X beta Y =
    (let numRows = dimension_0 X;
         numCols = dimension_1 X;
         a = Axpby_MV_scalars_tag conv alpha;
         b = Axpby_MV_scalars_tag conv beta
     in if numRows < INT_MAX \<and> numRows * numCols < INT_MAX
        then MV_Axpby_Invoke_Left Int_index R (Scalar alpha) X (Scalar beta) Y a b
        else MV_Axpby_Invoke_Left Size_index R (Scalar alpha) X (Scalar beta) Y a b)"

text \<open>The rank-1 entry point for scalar coefficients (lines 1855-1913).\<close>

definition Axpby_V_scalars_tag :: "('a::{zero,one} \<Rightarrow> 'p::uminus) \<Rightarrow> 'a \<Rightarrow> int" where
  "Axpby_V_scalars_tag conv alpha =
     (let a = 2
      in if conv alpha = conv 0 then 0
         else if conv alpha = - conv 1 then - 1
         else if conv alpha = conv 1 then 1
         else a)"

definition Axpby_V_scalars_axpby ::
  "('a \<Rightarrow> 'p::uminus) \<Rightarrow> 'a V \<Rightarrow> 'a \<Rightarrow> 'a V \<Rightarrow> 'a \<Rightarrow> 'a V \<Rightarrow>
   kernel list \<times> (nat \<Rightarrow> 'a::{zero,one,uminus,plus,minus,times})" where
  "Axpby_V_scalars_axpby conv R alpha X beta Y =
    (let numRows = V_dimension_0 X;
         a = Axpby_V_scalars_tag conv alpha;
         b = Axpby_V_scalars_tag conv beta
     in if numRows < INT_MAX
        then V_Axpby_Generic Int_index R (Scalar alpha) X (Scalar beta) Y a b
        else V_Axpby_Generic Size_index R (Scalar alpha) X (Scalar beta) Y a b)"

section \<open>Auxiliary definitions\<close>

text \<open>The tags for which the functors have a statement, the value a functor with
  tags \<open>(sx, sy)\<close> assigns to one entry (read off the sixteen statements), and the tags
  of the functor that the dispatch functions instantiate for the runtime pair
  \<open>(a, b)\<close>.\<close>

definition is_tag :: "int \<Rightarrow> bool" where
  "is_tag s = (s = 0 \<or> s = -1 \<or> s = 1 \<or> s = 2)"

definition axpby_elem :: "int \<Rightarrow> int \<Rightarrow> 'a \<Rightarrow> 'a \<Rightarrow> 'a \<Rightarrow> 'a \<Rightarrow> 'a::{zero,uminus,plus,minus,times}" where
  "axpby_elem sx sy a xv b yv =
     (if sx = 0 then (if sy = 0 then 0 else if sy = -1 then - yv else if sy = 1 then yv else b * yv)
      else if sx = -1 then
        (if sy = 0 then - xv else if sy = -1 then - xv - yv else if sy = 1 then - xv + yv
         else - xv + b * yv)
      else if sx = 1 then
        (if sy = 0 then xv else if sy = -1 then xv - yv else if sy = 1 then xv + yv
         else xv + b * yv)
      else
        (if sy = 0 then a * xv else if sy = -1 then a * xv - yv else if sy = 1 then a * xv + yv
         else a * xv + b * yv))"

definition dispatch_tags :: "int \<Rightarrow> int \<Rightarrow> int \<times> int" where
  "dispatch_tags a b = (if (a = 0 \<or> a = -1 \<or> a = 1) \<and> is_tag b then (a, b) else (2, 2))"

text \<open>The formula of the specification: the term of an operand is absent for the tag
  0, the negated operand for -1, the operand for 1 and the coefficient times the operand
  for 2; the entry of R is the sum of the terms that are present, and the additive
  identity when both are absent.\<close>

definition axpby_term :: "int \<Rightarrow> 'a \<Rightarrow> 'a \<Rightarrow> ('a::{uminus,times}) option" where
  "axpby_term s c v =
     (if s = 0 then None
      else if s = - 1 then Some (- v)
      else if s = 1 then Some v
      else Some (c * v))"

definition axpby_formula :: "int \<Rightarrow> 'a \<Rightarrow> 'a \<Rightarrow> int \<Rightarrow> 'a \<Rightarrow> 'a \<Rightarrow> 'a::{zero,uminus,plus,times}" where
  "axpby_formula sx a xv sy b yv =
     (case (axpby_term sx a xv, axpby_term sy b yv) of
        (None, None) \<Rightarrow> 0
      | (Some fx, None) \<Rightarrow> fx
      | (None, Some fy) \<Rightarrow> fy
      | (Some fx, Some fy) \<Rightarrow> fx + fy)"

text \<open>Constant views for the concrete instances.\<close>

definition ex_MV :: "nat \<Rightarrow> nat \<Rightarrow> array_layout \<Rightarrow> 'a \<Rightarrow> 'a MV" where
  "ex_MV rows cols l v =
     \<lparr>dimension_0 = of_nat rows, dimension_1 = of_nat cols, layout = l, data = (\<lambda>i k. v)\<rparr>"

definition ex_V :: "nat \<Rightarrow> 'a \<Rightarrow> 'a V" where
  "ex_V rows v = \<lparr>V_dimension_0 = of_nat rows, V_data = (\<lambda>i. v)\<rparr>"

text \<open>An element type with a non-finite value: finite values (with exact integer
  arithmetic) and \<open>NaN\<close>, which every operation propagates, as IEEE 754 arithmetic
  does (in particular \<open>0 * NaN = NaN\<close>).\<close>

datatype extnum = Fin int | NaN

instantiation extnum :: "{zero,one,uminus,plus,minus,times}"
begin

definition zero_extnum :: extnum where
  "zero_extnum = Fin 0"

definition one_extnum :: extnum where
  "one_extnum = Fin 1"

fun uminus_extnum :: "extnum \<Rightarrow> extnum" where
  "uminus_extnum (Fin u) = Fin (- u)"
| "uminus_extnum NaN = NaN"

fun plus_extnum :: "extnum \<Rightarrow> extnum \<Rightarrow> extnum" where
  "plus_extnum (Fin u) (Fin v) = Fin (u + v)"
| "plus_extnum _ _ = NaN"

fun minus_extnum :: "extnum \<Rightarrow> extnum \<Rightarrow> extnum" where
  "minus_extnum (Fin u) (Fin v) = Fin (u - v)"
| "minus_extnum _ _ = NaN"

fun times_extnum :: "extnum \<Rightarrow> extnum \<Rightarrow> extnum" where
  "times_extnum (Fin u) (Fin v) = Fin (u * v)"
| "times_extnum _ _ = NaN"

instance ..

end

section \<open>Closed forms of the loops, functors and dispatch functions\<close>

lemma fold_row_update:
  "fold (\<lambda>k r. r(i := (r i)(k := f k))) [0..<m] r =
     (\<lambda>i' k'. if i' = i \<and> k' < m then f k' else r i' k')"
  by (induction m) (auto simp: fun_eq_iff less_Suc_eq)

lemma for_loop_row_update:
  "for_loop n (\<lambda>k r. r(i := (r i)(k := f k))) r =
     (\<lambda>i' k'. if i' = i \<and> k' < nat n then f k' else r i' k')"
  by (simp add: for_loop_def fold_row_update)

lemma fold_rows:
  "fold (\<lambda>i r. (\<lambda>i' k'. if i' = i \<and> k' < n then g i k' else r i' k')) [0..<m] r =
     (\<lambda>i' k'. if i' < m \<and> k' < n then g i' k' else r i' k')"
  by (induction m) (auto simp: fun_eq_iff less_Suc_eq)

lemma fold_vec:
  "fold (\<lambda>i r. r(i := g i)) [0..<m] r = (\<lambda>i'. if i' < m then g i' else r i')"
  by (induction m) (auto simp: fun_eq_iff less_Suc_eq)

lemma MV_Axpby_Functor_closed:
  assumes "is_tag sx" "is_tag sy"
  shows "MV_Axpby_Functor ity sx sy x y a b i r =
     (\<lambda>i' k'. if i' = i \<and> k' < nat (to_index ity (dimension_1 x))
        then axpby_elem sx sy (coef a k') (data x i k') (coef b k') (data y i k') else r i' k')"
  using assms unfolding is_tag_def
  by (elim disjE; simp add: MV_Axpby_Functor_def axpby_elem_def for_loop_row_update cong: if_cong)

lemma MV_Axpby_Unroll_Functor_closed:
  assumes "is_tag sx" "is_tag sy"
  shows "MV_Axpby_Unroll_Functor U sx sy x y a b i r =
     (\<lambda>i' k'. if i' = i \<and> k' < nat U
        then axpby_elem sx sy (coef a k') (data x i k') (coef b k') (data y i k') else r i' k')"
  using assms unfolding is_tag_def
  by (elim disjE; simp add: MV_Axpby_Unroll_Functor_def axpby_elem_def for_loop_row_update cong: if_cong)

lemma V_Axpby_Functor_closed:
  assumes "is_tag sx" "is_tag sy"
  shows "V_Axpby_Functor sx sy x y a b i r =
     r(i := axpby_elem sx sy (coef a 0) (V_data x i) (coef b 0) (V_data y i))"
  using assms unfolding is_tag_def
  by (elim disjE; simp add: V_Axpby_Functor_def axpby_elem_def cong: if_cong)

lemma parallel_for_MV_Axpby_Functor:
  assumes "is_tag sx" "is_tag sy"
  shows "parallel_for n (MV_Axpby_Functor ity sx sy x y a b) r =
     (\<lambda>i k. if i < nat n \<and> k < nat (to_index ity (dimension_1 x))
        then axpby_elem sx sy (coef a k) (data x i k) (coef b k) (data y i k) else r i k)"
proof -
  have "MV_Axpby_Functor ity sx sy x y a b =
     (\<lambda>i r. (\<lambda>i' k'. if i' = i \<and> k' < nat (to_index ity (dimension_1 x))
        then axpby_elem sx sy (coef a k') (data x i k') (coef b k') (data y i k') else r i' k'))"
    by (intro ext) (simp add: MV_Axpby_Functor_closed [OF assms])
  then show ?thesis
    by (simp add: parallel_for_def for_loop_def fold_rows)
qed

lemma parallel_for_MV_Axpby_Unroll_Functor:
  assumes "is_tag sx" "is_tag sy"
  shows "parallel_for n (MV_Axpby_Unroll_Functor U sx sy x y a b) r =
     (\<lambda>i k. if i < nat n \<and> k < nat U
        then axpby_elem sx sy (coef a k) (data x i k) (coef b k) (data y i k) else r i k)"
proof -
  have "MV_Axpby_Unroll_Functor U sx sy x y a b =
     (\<lambda>i r. (\<lambda>i' k'. if i' = i \<and> k' < nat U
        then axpby_elem sx sy (coef a k') (data x i k') (coef b k') (data y i k') else r i' k'))"
    by (intro ext) (simp add: MV_Axpby_Unroll_Functor_closed [OF assms])
  then show ?thesis
    by (simp add: parallel_for_def for_loop_def fold_rows)
qed

lemma parallel_for_V_Axpby_Functor:
  assumes "is_tag sx" "is_tag sy"
  shows "parallel_for n (V_Axpby_Functor sx sy x y a b) r =
     (\<lambda>i. if i < nat n
        then axpby_elem sx sy (coef a 0) (V_data x i) (coef b 0) (V_data y i) else r i)"
proof -
  have "V_Axpby_Functor sx sy x y a b =
     (\<lambda>i r. r(i := axpby_elem sx sy (coef a 0) (V_data x i) (coef b 0) (V_data y i)))"
    by (intro ext) (simp add: V_Axpby_Functor_closed [OF assms])
  then show ?thesis
    by (simp add: parallel_for_def for_loop_def fold_vec)
qed

lemma dispatch_tags_is_tag:
  "is_tag (fst (dispatch_tags a b))" "is_tag (snd (dispatch_tags a b))"
  by (auto simp: dispatch_tags_def is_tag_def)

lemma MV_Axpby_Generic_launch:
  "MV_Axpby_Generic ity r av x bv y a b =
     launch_MV_Axpby_Functor ity (fst (dispatch_tags a b)) (snd (dispatch_tags a b)) r av x bv y"
  by (auto simp: MV_Axpby_Generic_def dispatch_tags_def is_tag_def)

lemma MV_Axpby_Unrolled_launch:
  "MV_Axpby_Unrolled U ity r av x bv y a b =
     launch_MV_Axpby_Unroll_Functor U ity (fst (dispatch_tags a b)) (snd (dispatch_tags a b))
       r av x bv y"
  by (auto simp: MV_Axpby_Unrolled_def dispatch_tags_def is_tag_def)

lemma V_Axpby_Generic_launch:
  "V_Axpby_Generic ity r av x bv y a b =
     launch_V_Axpby_Functor ity (fst (dispatch_tags a b)) (snd (dispatch_tags a b)) r av x bv y"
  by (auto simp: V_Axpby_Generic_def dispatch_tags_def is_tag_def)

lemma MV_Axpby_Generic_result:
  "snd (MV_Axpby_Generic ity r av x bv y a b) =
     (\<lambda>i k. if i < nat (to_index ity (dimension_0 x)) \<and> k < nat (to_index ity (dimension_1 x))
        then axpby_elem (fst (dispatch_tags a b)) (snd (dispatch_tags a b))
               (coef av k) (data x i k) (coef bv k) (data y i k)
        else data r i k)"
  by (simp add: MV_Axpby_Generic_launch launch_MV_Axpby_Functor_def
        parallel_for_MV_Axpby_Functor dispatch_tags_is_tag)

lemma MV_Axpby_Unrolled_result:
  "snd (MV_Axpby_Unrolled U ity r av x bv y a b) =
     (\<lambda>i k. if i < nat (to_index ity (dimension_0 x)) \<and> k < nat U
        then axpby_elem (fst (dispatch_tags a b)) (snd (dispatch_tags a b))
               (coef av k) (data x i k) (coef bv k) (data y i k)
        else data r i k)"
  by (simp add: MV_Axpby_Unrolled_launch launch_MV_Axpby_Unroll_Functor_def
        parallel_for_MV_Axpby_Unroll_Functor dispatch_tags_is_tag)

lemma V_Axpby_Generic_result:
  "snd (V_Axpby_Generic ity r av x bv y a b) =
     (\<lambda>i. if i < nat (to_index ity (V_dimension_0 x))
        then axpby_elem (fst (dispatch_tags a b)) (snd (dispatch_tags a b))
               (coef av 0) (V_data x i) (coef bv 0) (V_data y i)
        else V_data r i)"
  by (simp add: V_Axpby_Generic_launch launch_V_Axpby_Functor_def
        parallel_for_V_Axpby_Functor dispatch_tags_is_tag)

lemma MV_Axpby_Generic_log:
  "fst (MV_Axpby_Generic ity r av x bv y a b) =
     [MV_Axpby_Kernel (fst (dispatch_tags a b)) (snd (dispatch_tags a b)) ity]"
  by (simp add: MV_Axpby_Generic_launch launch_MV_Axpby_Functor_def)

lemma MV_Axpby_Unrolled_log:
  "fst (MV_Axpby_Unrolled U ity r av x bv y a b) =
     [MV_Axpby_Unroll_Kernel (fst (dispatch_tags a b)) (snd (dispatch_tags a b)) U ity]"
  by (simp add: MV_Axpby_Unrolled_launch launch_MV_Axpby_Unroll_Functor_def)

lemma V_Axpby_Generic_log:
  "fst (V_Axpby_Generic ity r av x bv y a b) =
     [V_Axpby_Kernel (fst (dispatch_tags a b)) (snd (dispatch_tags a b)) ity]"
  by (simp add: V_Axpby_Generic_launch launch_V_Axpby_Functor_def)

lemma MV_Axpby_Invoke_Left_cases:
  "MV_Axpby_Invoke_Left ity r av x bv y a b =
    (let c = to_index ity (dimension_1 x)
     in if c = 1 then
          (fst (V_Axpby_Generic ity (subview r 0) av (subview x 0) bv (subview y 0) a b),
           store_column r 0
             (snd (V_Axpby_Generic ity (subview r 0) av (subview x 0) bv (subview y 0) a b)))
        else if 2 \<le> c \<and> c \<le> 16 then MV_Axpby_Unrolled c ity r av x bv y a b
        else MV_Axpby_Generic ity r av x bv y a b)"
proof -
  have "2 \<le> c \<and> c \<le> 16 \<longleftrightarrow> c \<in> {2,3,4,5,6,7,8,9,10,11,12,13,14,15,16}" for c :: int
    by (simp only: insert_iff empty_iff) presburger
  then show ?thesis
    by (auto simp: MV_Axpby_Invoke_Left_def Let_def)
qed

lemma MV_Axpby_Invoke_Left_result:
  "snd (MV_Axpby_Invoke_Left ity r av x bv y a b) =
     (\<lambda>i k. if i < nat (to_index ity (dimension_0 x)) \<and> k < nat (to_index ity (dimension_1 x))
        then axpby_elem (fst (dispatch_tags a b)) (snd (dispatch_tags a b))
               (coef av k) (data x i k) (coef bv k) (data y i k)
        else data r i k)"
  by (auto simp: MV_Axpby_Invoke_Left_cases Let_def MV_Axpby_Generic_result
        MV_Axpby_Unrolled_result V_Axpby_Generic_result store_column_def subview_def fun_eq_iff)

lemma axpby_elem_formula:
  fixes a xv b yv :: "'a::{zero,uminus,plus,minus,times}"
  assumes "\<forall>u v::'a. u - v = u + - v" "is_tag sx" "is_tag sy"
  shows "axpby_elem sx sy a xv b yv = axpby_formula sx a xv sy b yv"
  using assms unfolding is_tag_def
  by (elim disjE; simp add: axpby_elem_def axpby_formula_def axpby_term_def)

lemma sint_ucast_small:
  fixes n :: "64 word"
  assumes "unat n < 2147483648"
  shows "sint (ucast n :: 32 word) = uint n"
proof -
  have "int (unat n) < 2147483648"
    using assms by linarith
  then have u: "uint n < 2147483648" "0 \<le> uint n"
    by simp_all
  have "uint (ucast n :: 32 word) = take_bit 32 (uint n)"
    by (simp add: unsigned_ucast_eq)
  also have "\<dots> = uint n"
    using u by (simp add: take_bit_int_eq_self)
  finally have "sint (ucast n :: 32 word) = signed_take_bit 31 (uint n)"
    by (simp add: sint_uint)
  also have "\<dots> = uint n"
  proof (rule signed_take_bit_int_eq_self)
    have "- (2 ^ 31) \<le> (0::int)"
      by simp
    also have "0 \<le> uint n"
      by simp
    finally show "- (2 ^ 31) \<le> uint n" .
    show "uint n < 2 ^ 31"
      using u by simp
  qed
  finally show ?thesis .
qed

lemma to_index_small: "unat n < 2147483648 \<Longrightarrow> to_index ity n = int (unat n)"
  by (cases ity) (simp_all add: to_index_def sint_ucast_small)

lemma INT_MAX_less: "n < INT_MAX \<longleftrightarrow> unat n < 2147483647"
  by (simp add: INT_MAX_def word_less_nat_alt)

lemma MV_Axpby_Invoke_Left_log:
  "fst (MV_Axpby_Invoke_Left ity r av x bv y a b) =
    (let c = to_index ity (dimension_1 x); t = dispatch_tags a b
     in if c = 1 then [V_Axpby_Kernel (fst t) (snd t) ity]
        else if 2 \<le> c \<and> c \<le> 16 then [MV_Axpby_Unroll_Kernel (fst t) (snd t) c ity]
        else [MV_Axpby_Kernel (fst t) (snd t) ity])"
  by (simp add: MV_Axpby_Invoke_Left_cases Let_def MV_Axpby_Generic_log MV_Axpby_Unrolled_log
        V_Axpby_Generic_log)

lemma MV_Axpby_Invoke_Left_index_transparent:
  assumes "unat (dimension_0 x) < 2147483648"
    and "unat (dimension_0 x) = 0 \<or> unat (dimension_1 x) < 2147483648"
  shows "snd (MV_Axpby_Invoke_Left Int_index r av x bv y a b) =
         snd (MV_Axpby_Invoke_Left Size_index r av x bv y a b)"
proof -
  have rows: "to_index Int_index (dimension_0 x) = to_index Size_index (dimension_0 x)"
    using assms(1) by (simp add: to_index_small)
  show ?thesis
  proof (cases "unat (dimension_0 x) = 0")
    case True
    then have "nat (to_index ity (dimension_0 x)) = 0" for ity
      using assms(1) by (simp add: to_index_small)
    then show ?thesis
      by (simp add: MV_Axpby_Invoke_Left_result)
  next
    case False
    then have "to_index Int_index (dimension_1 x) = to_index Size_index (dimension_1 x)"
      using assms(2) by (simp add: to_index_small)
    then show ?thesis
      using rows by (simp add: MV_Axpby_Invoke_Left_result)
  qed
qed

lemma MV_index_choice:
  fixes n m :: "64 word"
  assumes "n < INT_MAX" "n * m < INT_MAX" "unat n * unat m < 18446744073709551616"
  shows "unat n < 2147483648" "unat n = 0 \<or> unat m < 2147483648"
proof -
  show "unat n < 2147483648"
    using assms(1) by (simp add: INT_MAX_less)
  have "unat (n * m) = unat n * unat m"
    using assms(3) by (simp add: unat_word_ariths)
  then have p: "unat n * unat m < 2147483647"
    using assms(2) by (simp add: INT_MAX_less)
  show "unat n = 0 \<or> unat m < 2147483648"
  proof (cases "unat n = 0")
    case False
    then have "unat m \<le> unat n * unat m"
      by simp
    then show ?thesis
      using p by linarith
  qed simp
qed

section \<open>The functors compute the formula\<close>

text \<open>
  Claim C1. For every tag pair \<open>(sx, sy)\<close> with \<open>sx, sy\<close> in \<open>{0, -1, 1, 2}\<close>, every
  row index below the row count and every column index below the column count, the
  launched functor (rank 2, rank 2 unrolled, rank 1; coefficients as views or scalars)
  leaves in \<open>R(i,k)\<close> the sum of the two terms of the formula, a term being absent for
  the tag 0, the negated operand for -1, the operand for 1 and coefficient times operand
  for 2 (the coefficient being the scalar, \<open>a(k)\<close>, or \<open>a(0)\<close> in the rank-1 case); for
  (0, 0) every written entry is the additive identity. The code writes \<open>u - v\<close> where
  the formula has \<open>u + (- v)\<close>; the element type is assumed to make these equal, as the
  integers and IEEE 754 arithmetic do.
\<close>

theorem functors_compute_formula:
  fixes x y :: "'a::{zero,uminus,plus,minus,times} MV"
  assumes "\<forall>u v::'a. u - v = u + - v"
    and "sx \<in> {0, - 1, 1, 2}" and "sy \<in> {0, - 1, 1, 2}"
  shows
    "(\<forall>i k. i < nat (to_index ity (dimension_0 x)) \<and> k < nat (to_index ity (dimension_1 x)) \<longrightarrow>
        snd (launch_MV_Axpby_Functor ity sx sy r a x b y) i k =
          axpby_formula sx (coef a k) (data x i k) sy (coef b k) (data y i k)) \<and>
     (\<forall>i k. i < nat (to_index ity (dimension_0 x)) \<and> k < nat UNROLL \<longrightarrow>
        snd (launch_MV_Axpby_Unroll_Functor UNROLL ity sx sy r a x b y) i k =
          axpby_formula sx (coef a k) (data x i k) sy (coef b k) (data y i k)) \<and>
     (\<forall>i. i < nat (to_index ity (V_dimension_0 xv)) \<longrightarrow>
        snd (launch_V_Axpby_Functor ity sx sy rv a xv b yv) i =
          axpby_formula sx (coef a 0) (V_data xv i) sy (coef b 0) (V_data yv i)) \<and>
     (\<forall>i k. i < nat (to_index ity (dimension_0 x)) \<and> k < nat (to_index ity (dimension_1 x)) \<longrightarrow>
        snd (launch_MV_Axpby_Functor ity 0 0 r a x b y) i k = 0)"
proof -
  have t: "is_tag sx" "is_tag sy"
    using assms(2,3) by (auto simp: is_tag_def)
  have z: "is_tag 0"
    by (simp add: is_tag_def)
  have e: "axpby_elem 0 0 u xe w ye = 0" for u xe w ye :: 'a
    by (simp add: axpby_elem_def)
  have 1: "snd (launch_MV_Axpby_Functor ity sx sy r a x b y) i k =
      axpby_formula sx (coef a k) (data x i k) sy (coef b k) (data y i k)"
    if "i < nat (to_index ity (dimension_0 x)) \<and> k < nat (to_index ity (dimension_1 x))" for i k
    using that
    by (simp add: launch_MV_Axpby_Functor_def parallel_for_MV_Axpby_Functor [OF t]
          axpby_elem_formula [OF assms(1) t])
  have 2: "snd (launch_MV_Axpby_Unroll_Functor UNROLL ity sx sy r a x b y) i k =
      axpby_formula sx (coef a k) (data x i k) sy (coef b k) (data y i k)"
    if "i < nat (to_index ity (dimension_0 x)) \<and> k < nat UNROLL" for i k
    using that
    by (simp add: launch_MV_Axpby_Unroll_Functor_def parallel_for_MV_Axpby_Unroll_Functor [OF t]
          axpby_elem_formula [OF assms(1) t])
  have 3: "snd (launch_V_Axpby_Functor ity sx sy rv a xv b yv) i =
      axpby_formula sx (coef a 0) (V_data xv i) sy (coef b 0) (V_data yv i)"
    if "i < nat (to_index ity (V_dimension_0 xv))" for i
    using that
    by (simp add: launch_V_Axpby_Functor_def parallel_for_V_Axpby_Functor [OF t]
          axpby_elem_formula [OF assms(1) t])
  have 4: "snd (launch_MV_Axpby_Functor ity 0 0 r a x b y) i k = 0"
    if "i < nat (to_index ity (dimension_0 x)) \<and> k < nat (to_index ity (dimension_1 x))" for i k
    using that
    by (simp add: launch_MV_Axpby_Functor_def parallel_for_MV_Axpby_Functor [OF z z] e)
  show ?thesis
    using 1 2 3 4 by blast
qed

theorem functors_compute_formula_witness:
  "(\<forall>u v::int. u - v = u + - v) \<and>
   snd (launch_MV_Axpby_Functor Int_index (- 1) 2 (ex_MV 5 3 LayoutLeft 0) (Scalar 7)
          (ex_MV 5 3 LayoutLeft 1) (Scalar 4) (ex_MV 5 3 LayoutLeft (2::int))) 4 2 = 7 \<and>
   snd (launch_MV_Axpby_Unroll_Functor 3 Int_index (- 1) 2 (ex_MV 5 3 LayoutLeft 0) (Scalar 7)
          (ex_MV 5 3 LayoutLeft 1) (Scalar 4) (ex_MV 5 3 LayoutLeft (2::int))) 4 2 = 7 \<and>
   snd (launch_V_Axpby_Functor Int_index (- 1) 2 (ex_V 5 0) (Scalar 7)
          (ex_V 5 1) (Scalar 4) (ex_V 5 (2::int))) 4 = 7"
proof -
  have h: "\<forall>u v::int. u - v = u + - v"
    by simp
  have s: "(- 1::int) \<in> {0, - 1, 1, 2}" "(2::int) \<in> {0, - 1, 1, 2}"
    by simp_all
  show ?thesis
    using functors_compute_formula [OF h s, where ity = Int_index and UNROLL = 3
        and x = "ex_MV 5 3 LayoutLeft 1" and y = "ex_MV 5 3 LayoutLeft 2"
        and r = "ex_MV 5 3 LayoutLeft 0" and a = "Scalar 7" and b = "Scalar 4"
        and xv = "ex_V 5 1" and yv = "ex_V 5 2" and rv = "ex_V 5 0"]
    by (simp add: ex_MV_def ex_V_def to_index_def axpby_formula_def axpby_term_def)
qed

section \<open>Which functor the dispatch functions launch\<close>

text \<open>
  Claim C2. For every runtime tag pair \<open>(a, b)\<close> with \<open>a, b\<close> in \<open>{-1, 0, 1, 2}\<close>,
  each dispatch function (\<open>MV_Axpby_Generic\<close>, \<open>V_Axpby_Generic\<close>, \<open>MV_Axpby_Unrolled\<close>)
  launches exactly one kernel, the functor whose compile-time tags equal \<open>(a, b)\<close>. The
  dispatch functions have branches for \<open>a\<close> in 0, -1, 1 only: for the pair (2, 0) each
  of them launches the functor with the tags (2, 2) (and so for (2, -1) and (2, 1)),
  although the functors have statements for (2, 0), (2, -1) and (2, 1) and the comment
  before the last launch reads "a and b arbitrary (not -1, 0, or 1)".
\<close>

theorem dispatch_general_first_coefficient:
  "fst (MV_Axpby_Generic ity r av x bv y 2 0) = [MV_Axpby_Kernel 2 2 ity] \<and>
   fst (V_Axpby_Generic ity rv av xv bv yv 2 0) = [V_Axpby_Kernel 2 2 ity] \<and>
   fst (MV_Axpby_Unrolled UNROLL ity r av x bv y 2 0) = [MV_Axpby_Unroll_Kernel 2 2 UNROLL ity]"
  by (simp add: MV_Axpby_Generic_def V_Axpby_Generic_def MV_Axpby_Unrolled_def
        launch_MV_Axpby_Functor_def launch_V_Axpby_Functor_def
        launch_MV_Axpby_Unroll_Functor_def)

section \<open>A zero coefficient and the operand it multiplies\<close>

text \<open>
  Claim C3. When a coefficient classifies as zero the corresponding operand is not read,
  so \<open>axpby(R, alpha, X, 0, Y)\<close> is \<open>alpha * X\<close> whatever Y holds, for \<open>alpha\<close> one,
  minus one or general. For a general \<open>alpha\<close> (here 2) and \<open>beta = 0\<close> the rank-1 entry
  point classifies the pair as (2, 0), the dispatch launches the functor with tags
  (2, 2), and the entry of R is \<open>alpha * X(i) + beta * Y(i)\<close>: with \<open>NaN\<close> in Y it is
  \<open>NaN\<close>, with 5 in Y it is 2, where \<open>alpha * X(i)\<close> is 2.
\<close>

theorem zero_beta_general_alpha_reads_Y:
  "snd (Axpby_V_scalars_axpby id (ex_V 1 0) (Fin 2) (ex_V 1 (Fin 1)) 0 (ex_V 1 NaN)) 0 = NaN \<and>
   snd (Axpby_V_scalars_axpby id (ex_V 1 0) (Fin 2) (ex_V 1 (Fin 1)) 0 (ex_V 1 (Fin 5))) 0 = Fin 2 \<and>
   Fin 2 * V_data (ex_V 1 (Fin 1)) 0 = Fin 2 \<and>
   Axpby_V_scalars_tag id (Fin 2) = 2 \<and> Axpby_V_scalars_tag id (0::extnum) = 0 \<and>
   fst (Axpby_V_scalars_axpby id (ex_V 1 0) (Fin 2) (ex_V 1 (Fin 1)) 0 (ex_V 1 NaN)) =
     [V_Axpby_Kernel 2 2 Int_index]"
  by (simp add: Axpby_V_scalars_axpby_def Axpby_V_scalars_tag_def V_Axpby_Generic_def
        launch_V_Axpby_Functor_def V_Axpby_Functor_def parallel_for_def for_loop_def
        ex_V_def to_index_def INT_MAX_def zero_extnum_def one_extnum_def Let_def)

section \<open>The paths of the invoker\<close>

text \<open>
  Claim C4. For a rank-2 call the invoker runs the rank-1 dispatch on the column-0
  subviews when there is one column, the unrolled dispatch at the column count when it
  is in 2..16 and the layout is column-major, and the generic rank-2 dispatch when the
  column count is outside 1..16 or the layout is row-major. The entry points hand every
  rank-2 call, whatever its layout, to \<open>MV_Axpby_Invoke_Left\<close>: for row-major views with
  five rows and three columns the functor unrolled at 3 is launched, not the functor
  that \<open>MV_Axpby_Generic\<close> launches. \<open>MV_Axpby_Invoke_Right\<close>, which the file documents
  as the variant for row-major views, is never called.
\<close>

theorem row_major_uses_unrolled_functor:
  "layout (ex_MV 5 3 LayoutRight (1::int)) = LayoutRight \<and>
   fst (Axpby_MV_scalars_axpby id (ex_MV 5 3 LayoutRight 0) 1 (ex_MV 5 3 LayoutRight 1) (- 1)
          (ex_MV 5 3 LayoutRight (2::int))) = [MV_Axpby_Unroll_Kernel 1 (- 1) 3 Int_index] \<and>
   fst (MV_Axpby_Generic Int_index (ex_MV 5 3 LayoutRight 0) (Scalar 1)
          (ex_MV 5 3 LayoutRight 1) (Scalar (- 1)) (ex_MV 5 3 LayoutRight (2::int)) 1 (- 1)) =
     [MV_Axpby_Kernel 1 (- 1) Int_index]"
  by (simp add: Axpby_MV_scalars_axpby_def Axpby_MV_scalars_tag_def ex_MV_def INT_MAX_def
        MV_Axpby_Invoke_Left_log MV_Axpby_Generic_log dispatch_tags_def is_tag_def
        to_index_def Let_def)

section \<open>Classification of the coefficients\<close>



text \<open>
  Claim C6. A coefficient given as a 1-D view has tag 0 if and only if its extent is
  zero, and tag 2 for every nonzero extent, whatever its entries; it never has tag -1 or
  1; these tags are what the entry point passes on.
\<close>

theorem view_classification:
  "(Axpby_MV_views_tag av = 0 \<longleftrightarrow> V_dimension_0 av = 0) \<and>
   (V_dimension_0 av \<noteq> 0 \<longrightarrow> Axpby_MV_views_tag av = 2) \<and>
   Axpby_MV_views_tag av \<noteq> - 1 \<and> Axpby_MV_views_tag av \<noteq> 1 \<and>
   Axpby_MV_views_tag (av\<lparr>V_data := d\<rparr>) = Axpby_MV_views_tag av \<and>
   (\<exists>ity. Axpby_MV_views_axpby R av X bv Y =
      MV_Axpby_Invoke_Left ity R (Coeffs av) X (Coeffs bv) Y
        (Axpby_MV_views_tag av) (Axpby_MV_views_tag bv))"
proof -
  have e: "\<exists>ity. Axpby_MV_views_axpby R av X bv Y =
      MV_Axpby_Invoke_Left ity R (Coeffs av) X (Coeffs bv) Y
        (Axpby_MV_views_tag av) (Axpby_MV_views_tag bv)"
    by (cases "dimension_0 X < INT_MAX \<and> dimension_0 X * dimension_1 X < INT_MAX")
      (auto simp: Axpby_MV_views_axpby_def Let_def)
  then show ?thesis
    by (simp add: Axpby_MV_views_tag_def)
qed

theorem view_classification_witness:
  "V_dimension_0 (ex_V 3 (0::int)) \<noteq> 0 \<and> Axpby_MV_views_tag (ex_V 3 (0::int)) = 2 \<and>
   Axpby_MV_views_tag (ex_V 0 (0::int)) = 0"
proof -
  have h: "V_dimension_0 (ex_V 3 (0::int)) \<noteq> 0" "V_dimension_0 (ex_V 0 (0::int)) = 0"
    by (simp_all add: ex_V_def)
  show ?thesis
    using h view_classification [where av = "ex_V 3 (0::int)" and bv = "ex_V 3 (0::int)"
        and R = "ex_MV 1 1 LayoutLeft 0" and X = "ex_MV 1 1 LayoutLeft 0"
        and Y = "ex_MV 1 1 LayoutLeft 0" and d = "\<lambda>i. 0"]
      view_classification [where av = "ex_V 0 (0::int)" and bv = "ex_V 3 (0::int)"
        and R = "ex_MV 1 1 LayoutLeft 0" and X = "ex_MV 1 1 LayoutLeft 0"
        and Y = "ex_MV 1 1 LayoutLeft 0" and d = "\<lambda>i. 0"]
    by blast
qed

section \<open>The three paths compute the same R\<close>

text \<open>
  Claim C7. For the same coefficients, X, Y and tags, the three execution paths of a
  rank-2 call leave the same contents in R: what the invoker computes is what the
  generic functor computes; so does the unrolled dispatch at each width in 2..16 that
  equals the column count, and the rank-1 dispatch on the column-0 subviews when the
  column count is 1. The rank-2 scalar entry point on one column launches the kernel and
  computes the column that the rank-1 entry point does on the column-0 subviews.
\<close>

theorem paths_agree:
  fixes alpha beta :: "'b::{zero,one,uminus,plus,minus,times}"
    and conv :: "'b \<Rightarrow> 'p::uminus"
  shows
  "snd (MV_Axpby_Invoke_Left ity r av x bv y a b) = snd (MV_Axpby_Generic ity r av x bv y a b) \<and>
   (2 \<le> UNROLL \<and> UNROLL \<le> 16 \<and> to_index ity (dimension_1 x) = UNROLL \<longrightarrow>
      snd (MV_Axpby_Unrolled UNROLL ity r av x bv y a b) =
        snd (MV_Axpby_Generic ity r av x bv y a b)) \<and>
   (to_index ity (dimension_1 x) = 1 \<longrightarrow>
      store_column r 0
        (snd (V_Axpby_Generic ity (subview r 0) av (subview x 0) bv (subview y 0) a b)) =
        snd (MV_Axpby_Generic ity r av x bv y a b)) \<and>
   (dimension_1 X = 1 \<longrightarrow>
      Axpby_MV_scalars_axpby conv R alpha X beta Y =
        (fst (Axpby_V_scalars_axpby conv (subview R 0) alpha (subview X 0) beta (subview Y 0)),
         store_column R 0
           (snd (Axpby_V_scalars_axpby conv (subview R 0) alpha (subview X 0) beta (subview Y 0)))))"
proof -
  have 1: "snd (MV_Axpby_Invoke_Left ity r av x bv y a b) =
      snd (MV_Axpby_Generic ity r av x bv y a b)"
    by (simp add: MV_Axpby_Invoke_Left_result MV_Axpby_Generic_result)
  have 2: "snd (MV_Axpby_Unrolled UNROLL ity r av x bv y a b) =
      snd (MV_Axpby_Generic ity r av x bv y a b)"
    if "to_index ity (dimension_1 x) = UNROLL"
    using that by (simp add: MV_Axpby_Unrolled_result MV_Axpby_Generic_result)
  have 3: "store_column r 0
        (snd (V_Axpby_Generic ity (subview r 0) av (subview x 0) bv (subview y 0) a b)) =
      snd (MV_Axpby_Generic ity r av x bv y a b)"
    if "to_index ity (dimension_1 x) = 1"
    using that
    by (auto simp: V_Axpby_Generic_result MV_Axpby_Generic_result store_column_def subview_def
          fun_eq_iff)
  have 4: "Axpby_MV_scalars_axpby conv R alpha X beta Y =
        (fst (Axpby_V_scalars_axpby conv (subview R 0) alpha (subview X 0) beta (subview Y 0)),
         store_column R 0
           (snd (Axpby_V_scalars_axpby conv (subview R 0) alpha (subview X 0) beta (subview Y 0))))"
    if "dimension_1 X = 1"
  proof -
    have c: "to_index ity' 1 = 1" for ity'
      by (cases ity') (simp_all add: to_index_def)
    have t: "Axpby_V_scalars_tag conv v = Axpby_MV_scalars_tag conv v" for v :: 'b
      by (simp add: Axpby_V_scalars_tag_def Axpby_MV_scalars_tag_def)
    show ?thesis
      using that
      by (simp add: Axpby_MV_scalars_axpby_def Axpby_V_scalars_axpby_def Let_def
            MV_Axpby_Invoke_Left_cases c t subview_def)
  qed
  show ?thesis
    using 1 2 3 4 by blast
qed

theorem paths_agree_witness:
  "2 \<le> (3::int) \<and> (3::int) \<le> 16 \<and>
   to_index Int_index (dimension_1 (ex_MV 5 3 LayoutLeft (1::int))) = 3 \<and>
   snd (MV_Axpby_Unrolled 3 Int_index (ex_MV 5 3 LayoutLeft 0) (Scalar 1)
          (ex_MV 5 3 LayoutLeft 1) (Scalar (- 1)) (ex_MV 5 3 LayoutLeft (2::int)) 1 (- 1)) =
   snd (MV_Axpby_Generic Int_index (ex_MV 5 3 LayoutLeft 0) (Scalar 1)
          (ex_MV 5 3 LayoutLeft 1) (Scalar (- 1)) (ex_MV 5 3 LayoutLeft (2::int)) 1 (- 1)) \<and>
   to_index Int_index (dimension_1 (ex_MV 5 1 LayoutLeft (1::int))) = 1 \<and>
   store_column (ex_MV 5 1 LayoutLeft 0) 0
       (snd (V_Axpby_Generic Int_index (subview (ex_MV 5 1 LayoutLeft 0) 0) (Scalar 1)
              (subview (ex_MV 5 1 LayoutLeft 1) 0) (Scalar (- 1))
              (subview (ex_MV 5 1 LayoutLeft (2::int)) 0) 1 (- 1))) =
     snd (MV_Axpby_Generic Int_index (ex_MV 5 1 LayoutLeft 0) (Scalar 1)
            (ex_MV 5 1 LayoutLeft 1) (Scalar (- 1)) (ex_MV 5 1 LayoutLeft (2::int)) 1 (- 1)) \<and>
   dimension_1 (ex_MV 5 1 LayoutLeft (1::int)) = 1 \<and>
   Axpby_MV_scalars_axpby id (ex_MV 5 1 LayoutLeft 0) 1 (ex_MV 5 1 LayoutLeft 1) (- 1)
       (ex_MV 5 1 LayoutLeft (2::int)) =
     (fst (Axpby_V_scalars_axpby id (subview (ex_MV 5 1 LayoutLeft 0) 0) 1
             (subview (ex_MV 5 1 LayoutLeft 1) 0) (- 1) (subview (ex_MV 5 1 LayoutLeft (2::int)) 0)),
      store_column (ex_MV 5 1 LayoutLeft 0) 0
        (snd (Axpby_V_scalars_axpby id (subview (ex_MV 5 1 LayoutLeft 0) 0) 1
               (subview (ex_MV 5 1 LayoutLeft 1) 0) (- 1)
               (subview (ex_MV 5 1 LayoutLeft (2::int)) 0))))"
proof -
  have c: "to_index Int_index (dimension_1 (ex_MV 5 3 LayoutLeft (1::int))) = 3"
    "to_index Int_index (dimension_1 (ex_MV 5 1 LayoutLeft (1::int))) = 1"
    by (simp_all add: ex_MV_def to_index_def)
  have d: "dimension_1 (ex_MV 5 1 LayoutLeft (1::int)) = 1"
    by (simp add: ex_MV_def)
  have u: "2 \<le> (3::int) \<and> (3::int) \<le> 16"
    by simp
  show ?thesis
    using c d u
      paths_agree [where ity = Int_index and UNROLL = 3
        and r = "ex_MV 5 3 LayoutLeft 0" and x = "ex_MV 5 3 LayoutLeft (1::int)"
        and y = "ex_MV 5 3 LayoutLeft 2" and av = "Scalar 1" and bv = "Scalar (- 1)"
        and a = 1 and b = "- 1" and R = "ex_MV 5 1 LayoutLeft 0"
        and X = "ex_MV 5 1 LayoutLeft (1::int)" and Y = "ex_MV 5 1 LayoutLeft 2"
        and alpha = 1 and beta = "- 1"]
      paths_agree [where ity = Int_index and UNROLL = 3
        and r = "ex_MV 5 1 LayoutLeft 0" and x = "ex_MV 5 1 LayoutLeft (1::int)"
        and y = "ex_MV 5 1 LayoutLeft 2" and av = "Scalar 1" and bv = "Scalar (- 1)"
        and a = 1 and b = "- 1" and R = "ex_MV 5 1 LayoutLeft 0"
        and X = "ex_MV 5 1 LayoutLeft (1::int)" and Y = "ex_MV 5 1 LayoutLeft 2"
        and alpha = 1 and beta = "- 1"]
    by blast
qed

section \<open>The index type\<close>

text \<open>
  A rank-1 call with \<open>2^31 - 1\<close> rows: the row count is in the range of a 32-bit
  signed integer, and the kernel is launched with the view's size type.
\<close>

theorem row_count_INT_MAX_selects_size_type:
  "uint (V_dimension_0 (ex_V 2147483647 (1::int))) = 2147483647 \<and>
   fst (Axpby_V_scalars_axpby id (ex_V 2147483647 0) 1 (ex_V 2147483647 1) 1
          (ex_V 2147483647 (1::int))) = [V_Axpby_Kernel 1 1 Size_index]"
  by (simp add: Axpby_V_scalars_axpby_def Axpby_V_scalars_tag_def ex_V_def INT_MAX_def
        V_Axpby_Generic_log dispatch_tags_def is_tag_def Let_def)

text \<open>
  Claim C8, amended. Each entry point launches one kernel, with the index type \<open>int\<close>
  if and only if the row count is strictly below \<open>INT_MAX = 2^31 - 1\<close> and, for rank 2,
  so is the product of the row and column counts computed in the size type (modulo
  \<open>2^64\<close>), and with the view's size type otherwise. The choice does not change R:
  for rank 1 always, and for rank 2 whenever the element count \<open>rows * cols\<close> is below
  \<open>2^64\<close>, R is what the dispatch at the size type computes.
\<close>

theorem index_type_selection:
  fixes alpha beta :: "'a::{zero,one,uminus,plus,minus,times}"
    and conv :: "'a \<Rightarrow> 'p::uminus"
  shows
  "(\<exists>k. fst (Axpby_V_scalars_axpby conv Rv alpha Xv beta Yv) = [k] \<and>
       kernel_index_type k =
         (if unat (V_dimension_0 Xv) < 2147483647 then Int_index else Size_index)) \<and>
   (\<exists>k. fst (Axpby_MV_scalars_axpby conv R alpha X beta Y) = [k] \<and>
       kernel_index_type k =
         (if unat (dimension_0 X) < 2147483647 \<and>
             (unat (dimension_0 X) * unat (dimension_1 X)) mod 18446744073709551616 < 2147483647
          then Int_index else Size_index)) \<and>
   (\<exists>k. fst (Axpby_MV_views_axpby R cv X dv Y) = [k] \<and>
       kernel_index_type k =
         (if unat (dimension_0 X) < 2147483647 \<and>
             (unat (dimension_0 X) * unat (dimension_1 X)) mod 18446744073709551616 < 2147483647
          then Int_index else Size_index)) \<and>
   snd (Axpby_V_scalars_axpby conv Rv alpha Xv beta Yv) =
     snd (V_Axpby_Generic Size_index Rv (Scalar alpha) Xv (Scalar beta) Yv
            (Axpby_V_scalars_tag conv alpha) (Axpby_V_scalars_tag conv beta)) \<and>
   (unat (dimension_0 X) * unat (dimension_1 X) < 18446744073709551616 \<longrightarrow>
      snd (Axpby_MV_scalars_axpby conv R alpha X beta Y) =
        snd (MV_Axpby_Invoke_Left Size_index R (Scalar alpha) X (Scalar beta) Y
               (Axpby_MV_scalars_tag conv alpha) (Axpby_MV_scalars_tag conv beta)) \<and>
      snd (Axpby_MV_views_axpby R cv X dv Y) =
        snd (MV_Axpby_Invoke_Left Size_index R (Coeffs cv) X (Coeffs dv) Y
               (Axpby_MV_views_tag cv) (Axpby_MV_views_tag dv)))"
proof -
  have 1: "\<exists>k. fst (Axpby_V_scalars_axpby conv Rv alpha Xv beta Yv) = [k] \<and>
       kernel_index_type k =
         (if unat (V_dimension_0 Xv) < 2147483647 then Int_index else Size_index)"
    by (simp add: Axpby_V_scalars_axpby_def Let_def V_Axpby_Generic_log INT_MAX_less)
  have 2: "\<exists>k. fst (Axpby_MV_scalars_axpby conv R alpha X beta Y) = [k] \<and>
       kernel_index_type k =
         (if unat (dimension_0 X) < 2147483647 \<and>
             (unat (dimension_0 X) * unat (dimension_1 X)) mod 18446744073709551616 < 2147483647
          then Int_index else Size_index)"
    by (simp add: Axpby_MV_scalars_axpby_def Let_def MV_Axpby_Invoke_Left_log INT_MAX_less
          unat_word_ariths)
  have 3: "\<exists>k. fst (Axpby_MV_views_axpby R cv X dv Y) = [k] \<and>
       kernel_index_type k =
         (if unat (dimension_0 X) < 2147483647 \<and>
             (unat (dimension_0 X) * unat (dimension_1 X)) mod 18446744073709551616 < 2147483647
          then Int_index else Size_index)"
    by (simp add: Axpby_MV_views_axpby_def Let_def MV_Axpby_Invoke_Left_log INT_MAX_less
          unat_word_ariths)
  have 4: "snd (Axpby_V_scalars_axpby conv Rv alpha Xv beta Yv) =
     snd (V_Axpby_Generic Size_index Rv (Scalar alpha) Xv (Scalar beta) Yv
            (Axpby_V_scalars_tag conv alpha) (Axpby_V_scalars_tag conv beta))"
  proof (cases "V_dimension_0 Xv < INT_MAX")
    case True
    then have "unat (V_dimension_0 Xv) < 2147483648"
      by (simp add: INT_MAX_less)
    then have "to_index Int_index (V_dimension_0 Xv) = to_index Size_index (V_dimension_0 Xv)"
      by (simp add: to_index_small)
    then show ?thesis
      using True by (simp add: Axpby_V_scalars_axpby_def Let_def V_Axpby_Generic_result)
  next
    case False
    then show ?thesis
      by (simp add: Axpby_V_scalars_axpby_def Let_def)
  qed
  have t: "snd (MV_Axpby_Invoke_Left
              (if dimension_0 X < INT_MAX \<and> dimension_0 X * dimension_1 X < INT_MAX
               then Int_index else Size_index) R c1 X c2 Y a b) =
           snd (MV_Axpby_Invoke_Left Size_index R c1 X c2 Y a b)"
    if "unat (dimension_0 X) * unat (dimension_1 X) < 18446744073709551616"
    for c1 c2 :: "'a coeff" and a b
  proof (cases "dimension_0 X < INT_MAX \<and> dimension_0 X * dimension_1 X < INT_MAX")
    case True
    then show ?thesis
      using MV_index_choice [of "dimension_0 X" "dimension_1 X"] that
      by (simp add: MV_Axpby_Invoke_Left_index_transparent)
  next
    case False
    then show ?thesis
      by auto
  qed
  have e: "Axpby_MV_scalars_axpby conv R alpha X beta Y =
      MV_Axpby_Invoke_Left
        (if dimension_0 X < INT_MAX \<and> dimension_0 X * dimension_1 X < INT_MAX
         then Int_index else Size_index) R (Scalar alpha) X (Scalar beta) Y
        (Axpby_MV_scalars_tag conv alpha) (Axpby_MV_scalars_tag conv beta)"
    "Axpby_MV_views_axpby R cv X dv Y =
      MV_Axpby_Invoke_Left
        (if dimension_0 X < INT_MAX \<and> dimension_0 X * dimension_1 X < INT_MAX
         then Int_index else Size_index) R (Coeffs cv) X (Coeffs dv) Y
        (Axpby_MV_views_tag cv) (Axpby_MV_views_tag dv)"
    by (simp_all add: Axpby_MV_scalars_axpby_def Axpby_MV_views_axpby_def Let_def)
  have 5: "unat (dimension_0 X) * unat (dimension_1 X) < 18446744073709551616 \<longrightarrow>
      snd (Axpby_MV_scalars_axpby conv R alpha X beta Y) =
        snd (MV_Axpby_Invoke_Left Size_index R (Scalar alpha) X (Scalar beta) Y
               (Axpby_MV_scalars_tag conv alpha) (Axpby_MV_scalars_tag conv beta)) \<and>
      snd (Axpby_MV_views_axpby R cv X dv Y) =
        snd (MV_Axpby_Invoke_Left Size_index R (Coeffs cv) X (Coeffs dv) Y
               (Axpby_MV_views_tag cv) (Axpby_MV_views_tag dv))"
    using t by (simp only: e) blast
  show ?thesis
    using 1 2 3 4 5 by blast
qed

theorem index_type_selection_witness:
  "unat (dimension_0 (ex_MV 5 3 LayoutLeft (1::int))) *
     unat (dimension_1 (ex_MV 5 3 LayoutLeft (1::int))) < 18446744073709551616 \<and>
   snd (Axpby_MV_scalars_axpby id (ex_MV 5 3 LayoutLeft 0) 1 (ex_MV 5 3 LayoutLeft 1) (- 1)
          (ex_MV 5 3 LayoutLeft (2::int))) =
     snd (MV_Axpby_Invoke_Left Size_index (ex_MV 5 3 LayoutLeft 0) (Scalar 1)
            (ex_MV 5 3 LayoutLeft 1) (Scalar (- 1)) (ex_MV 5 3 LayoutLeft (2::int))
            (Axpby_MV_scalars_tag id (1::int)) (Axpby_MV_scalars_tag id (- 1::int)))"
proof -
  have h: "unat (dimension_0 (ex_MV 5 3 LayoutLeft (1::int))) *
     unat (dimension_1 (ex_MV 5 3 LayoutLeft (1::int))) < 18446744073709551616"
    by (simp add: ex_MV_def)
  show ?thesis
    using h index_type_selection [where X = "ex_MV 5 3 LayoutLeft (1::int)"
        and R = "ex_MV 5 3 LayoutLeft 0" and Y = "ex_MV 5 3 LayoutLeft 2" and alpha = 1
        and beta = "- 1" and Rv = "ex_V 1 0" and Xv = "ex_V 1 0" and Yv = "ex_V 1 0"
        and cv = "ex_V 1 0" and dv = "ex_V 1 0"]
    by blast
qed

section \<open>R is only written\<close>

text \<open>
  Claim C10. For every tag pair and R not aliasing X or Y, the final contents of R do
  not depend on its initial contents: row \<open>i\<close> of R after a functor ran on \<open>i\<close> is the
  same for any two initial contents, in every column below the column count, and two
  launches whose initial R agree outside the written rows and columns end with the same
  R.
\<close>

theorem initial_R_irrelevant:
  fixes x y :: "'a::{zero,uminus,plus,minus,times} MV"
  assumes "sx \<in> {0, - 1, 1, 2}" and "sy \<in> {0, - 1, 1, 2}"
  shows
    "(\<forall>k. k < nat (to_index ity (dimension_1 x)) \<longrightarrow>
        MV_Axpby_Functor ity sx sy x y a b i m1 i k = MV_Axpby_Functor ity sx sy x y a b i m2 i k) \<and>
     (\<forall>k. k < nat UNROLL \<longrightarrow>
        MV_Axpby_Unroll_Functor UNROLL sx sy x y a b i m1 i k =
          MV_Axpby_Unroll_Functor UNROLL sx sy x y a b i m2 i k) \<and>
     V_Axpby_Functor sx sy xv yv a b i v1 i = V_Axpby_Functor sx sy xv yv a b i v2 i \<and>
     ((\<forall>j k. \<not> (j < nat (to_index ity (dimension_0 x)) \<and> k < nat (to_index ity (dimension_1 x)))
          \<longrightarrow> data r1 j k = data r2 j k) \<longrightarrow>
        snd (launch_MV_Axpby_Functor ity sx sy r1 a x b y) =
          snd (launch_MV_Axpby_Functor ity sx sy r2 a x b y)) \<and>
     ((\<forall>j k. \<not> (j < nat (to_index ity (dimension_0 x)) \<and> k < nat UNROLL)
          \<longrightarrow> data r1 j k = data r2 j k) \<longrightarrow>
        snd (launch_MV_Axpby_Unroll_Functor UNROLL ity sx sy r1 a x b y) =
          snd (launch_MV_Axpby_Unroll_Functor UNROLL ity sx sy r2 a x b y)) \<and>
     ((\<forall>j. \<not> j < nat (to_index ity (V_dimension_0 xv)) \<longrightarrow> V_data rv1 j = V_data rv2 j) \<longrightarrow>
        snd (launch_V_Axpby_Functor ity sx sy rv1 a xv b yv) =
          snd (launch_V_Axpby_Functor ity sx sy rv2 a xv b yv))"
proof -
  have t: "is_tag sx" "is_tag sy"
    using assms by (auto simp: is_tag_def)
  have 1: "\<forall>k. k < nat (to_index ity (dimension_1 x)) \<longrightarrow>
        MV_Axpby_Functor ity sx sy x y a b i m1 i k = MV_Axpby_Functor ity sx sy x y a b i m2 i k"
    by (simp add: MV_Axpby_Functor_closed [OF t])
  have 2: "\<forall>k. k < nat UNROLL \<longrightarrow>
        MV_Axpby_Unroll_Functor UNROLL sx sy x y a b i m1 i k =
          MV_Axpby_Unroll_Functor UNROLL sx sy x y a b i m2 i k"
    by (simp add: MV_Axpby_Unroll_Functor_closed [OF t])
  have 3: "V_Axpby_Functor sx sy xv yv a b i v1 i = V_Axpby_Functor sx sy xv yv a b i v2 i"
    by (simp add: V_Axpby_Functor_closed [OF t])
  have 4: "(\<forall>j k. \<not> (j < nat (to_index ity (dimension_0 x)) \<and>
              k < nat (to_index ity (dimension_1 x))) \<longrightarrow> data r1 j k = data r2 j k) \<longrightarrow>
        snd (launch_MV_Axpby_Functor ity sx sy r1 a x b y) =
          snd (launch_MV_Axpby_Functor ity sx sy r2 a x b y)"
    by (auto simp: launch_MV_Axpby_Functor_def parallel_for_MV_Axpby_Functor [OF t] fun_eq_iff)
  have 5: "(\<forall>j k. \<not> (j < nat (to_index ity (dimension_0 x)) \<and> k < nat UNROLL)
          \<longrightarrow> data r1 j k = data r2 j k) \<longrightarrow>
        snd (launch_MV_Axpby_Unroll_Functor UNROLL ity sx sy r1 a x b y) =
          snd (launch_MV_Axpby_Unroll_Functor UNROLL ity sx sy r2 a x b y)"
    by (auto simp: launch_MV_Axpby_Unroll_Functor_def parallel_for_MV_Axpby_Unroll_Functor [OF t]
          fun_eq_iff)
  have 6: "(\<forall>j. \<not> j < nat (to_index ity (V_dimension_0 xv)) \<longrightarrow> V_data rv1 j = V_data rv2 j) \<longrightarrow>
        snd (launch_V_Axpby_Functor ity sx sy rv1 a xv b yv) =
          snd (launch_V_Axpby_Functor ity sx sy rv2 a xv b yv)"
    by (auto simp: launch_V_Axpby_Functor_def parallel_for_V_Axpby_Functor [OF t] fun_eq_iff)
  show ?thesis
    using 1 2 3 4 5 6 by blast
qed

theorem initial_R_irrelevant_witness:
  "(1::int) \<in> {0, - 1, 1, 2} \<and> (- 1::int) \<in> {0, - 1, 1, 2} \<and>
   (2::nat) < nat (to_index Int_index (dimension_1 (ex_MV 5 3 LayoutLeft (1::int)))) \<and>
   MV_Axpby_Functor Int_index 1 (- 1) (ex_MV 5 3 LayoutLeft 1) (ex_MV 5 3 LayoutLeft (2::int))
       (Scalar 1) (Scalar (- 1)) 4 (\<lambda>i k. 0) 4 2 =
     MV_Axpby_Functor Int_index 1 (- 1) (ex_MV 5 3 LayoutLeft 1) (ex_MV 5 3 LayoutLeft (2::int))
       (Scalar 1) (Scalar (- 1)) 4 (\<lambda>i k. 9) 4 2 \<and>
   snd (launch_V_Axpby_Functor Int_index 1 (- 1) (ex_V 5 0) (Scalar 1) (ex_V 5 1)
          (Scalar (- 1)) (ex_V 5 (2::int))) =
     snd (launch_V_Axpby_Functor Int_index 1 (- 1)
          \<lparr>V_dimension_0 = 5, V_data = (\<lambda>i. if i < 5 then 9 else 0)\<rparr> (Scalar 1) (ex_V 5 1)
          (Scalar (- 1)) (ex_V 5 (2::int)))"
proof -
  have s: "(1::int) \<in> {0, - 1, 1, 2}" "(- 1::int) \<in> {0, - 1, 1, 2}"
    by simp_all
  have c: "nat (to_index Int_index (dimension_1 (ex_MV 5 3 LayoutLeft (1::int)))) = 3"
    "nat (to_index Int_index (V_dimension_0 (ex_V 5 (1::int)))) = 5"
    by (simp_all add: ex_MV_def ex_V_def to_index_def)
  have o: "\<forall>j. \<not> j < nat (to_index Int_index (V_dimension_0 (ex_V 5 (1::int)))) \<longrightarrow>
      V_data (ex_V 5 (0::int)) j =
      V_data \<lparr>V_dimension_0 = 5, V_data = (\<lambda>i. if i < 5 then 9 else 0)\<rparr> j"
    by (simp add: ex_V_def to_index_def)
  show ?thesis
    using s c o initial_R_irrelevant [OF s, where ity = Int_index and i = 4 and UNROLL = 3
        and x = "ex_MV 5 3 LayoutLeft (1::int)" and y = "ex_MV 5 3 LayoutLeft 2"
        and a = "Scalar 1" and b = "Scalar (- 1)" and ?m1.0 = "\<lambda>i k. 0" and ?m2.0 = "\<lambda>i k. 9"
        and ?v1.0 = "\<lambda>i. 0" and ?v2.0 = "\<lambda>i. 9"
        and ?r1.0 = "ex_MV 5 3 LayoutLeft 0" and ?r2.0 = "ex_MV 5 3 LayoutLeft 0"
        and xv = "ex_V 5 1" and yv = "ex_V 5 2" and ?rv1.0 = "ex_V 5 0"
        and ?rv2.0 = "\<lparr>V_dimension_0 = 5, V_data = (\<lambda>i. if i < 5 then 9 else 0)\<rparr>"]
    by simp
qed

end
